theory Spec2Isabelle
  imports Complex_Main "HOL-Library.Sublist"
begin

section \<open>Data model\<close>

text \<open>
  The interface \<^verbatim>\<open>Threat\<close> of \<^verbatim>\<open>App.tsx\<close>, \<^verbatim>\<open>GeoMap.tsx\<close> and \<^verbatim>\<open>Globe3D.tsx\<close>.
  The records reach the application through \<^verbatim>\<open>JSON.parse\<close> and \<^verbatim>\<open>response.json()\<close>,
  which check nothing: a record whose \<^verbatim>\<open>id\<close> is absent has \<^verbatim>\<open>t.id === undefined\<close>, which
  is \<open>None\<close> here. The optional fields of the interface are options as well. JavaScript
  numbers are idealised as reals.
\<close>

record coords =
  lat :: real
  lon :: real
  city :: string

record analysis_info =
  behavioral_score :: real
  pattern_match :: string
  risk_index :: real

record threat =
  id_field :: "string option"
  timestamp :: string
  type_field :: string
  severity :: string
  source :: string
  target :: string
  location :: string
  attribution :: string
  status :: string
  confidence :: real
  source_coords :: "coords option"
  target_coords :: "coords option"
  analysis :: "analysis_info option"
  mitigation_suggestions :: "string list option"

text \<open>
  The part of the component state of \<^verbatim>\<open>App\<close> that the handlers below read and write:
  the working collection \<^verbatim>\<open>threats\<close>, the selection \<^verbatim>\<open>selectedThreat\<close>, and the texts
  shown to the operator by \<^verbatim>\<open>alert(...)\<close>, oldest first. Console output is not shown to
  the operator and is left out, as is the chart data that \<^verbatim>\<open>ws.onmessage\<close> refreshes from
  \<^verbatim>\<open>Math.random()\<close>.
\<close>

record app_state =
  threats :: "threat list"
  selectedThreat :: "threat option"
  alerts :: "string list"

definition initial_state :: app_state where
  "initial_state = \<lparr>threats = [], selectedThreat = None, alerts = []\<rparr>"

section \<open>Snapshot fetch and push channel (App.tsx)\<close>

text \<open>
  How the request of \<^verbatim>\<open>fetchThreats\<close> ends: a response with \<^verbatim>\<open>response.ok\<close> and its parsed
  body, a response that is not ok, or a rejected promise (the \<^verbatim>\<open>catch\<close> branch).
\<close>

datatype fetch_result = FetchOk "threat list" | FetchNotOk | FetchFailed

definition fetchThreats :: "fetch_result \<Rightarrow> app_state \<Rightarrow> app_state" where
  "fetchThreats r s =
     (case r of
        FetchOk data \<Rightarrow> s\<lparr>threats := take 50 data\<rparr>
      | FetchNotOk \<Rightarrow> s
      | FetchFailed \<Rightarrow> s)"

text \<open>
  \<^verbatim>\<open>ws.onmessage\<close>: \<^verbatim>\<open>setThreats(prev => [data, ...prev].slice(0, 50))\<close>, where \<open>data\<close> is the
  parsed message. (A message that is not JSON makes \<^verbatim>\<open>JSON.parse\<close> throw before the state
  is touched; the model starts from the parsed record.)
\<close>

definition ws_onmessage :: "threat \<Rightarrow> app_state \<Rightarrow> app_state" where
  "ws_onmessage data s = s\<lparr>threats := take 50 (data # threats s)\<rparr>"

section \<open>Mitigation (App.tsx, handleMitigate)\<close>

text \<open>
  How the mitigation request ends: \<open>NetworkError\<close> is the \<^verbatim>\<open>catch\<close> branch (the request
  or \<^verbatim>\<open>response.json()\<close> was rejected); \<open>Reply ok message\<close> is a parsed response with
  \<^verbatim>\<open>response.ok\<close> and \<^verbatim>\<open>data.message\<close>, \<open>None\<close> when the body has no message.
\<close>

datatype mitigate_outcome = NetworkError | Reply bool "string option"

text \<open>
  \<^verbatim>\<open>updateLocalState\<close> closes over the argument \<^verbatim>\<open>id\<close> and over the \<^verbatim>\<open>selectedThreat\<close> of
  the render in which the handler was created (\<open>sel\<close>); both state updates are functional
  updates of the state at the time the request resolves. \<^verbatim>\<open>t.id === id\<close> compares an
  absent id with an absent argument as equal.
\<close>

definition updateLocalState :: "string option \<Rightarrow> threat option \<Rightarrow> app_state \<Rightarrow> app_state" where
  "updateLocalState i sel s =
     s\<lparr>threats := map (\<lambda>t. if id_field t = i then t\<lparr>status := ''Mitigated''\<rparr> else t) (threats s),
       selectedThreat :=
         (if (case sel of Some st \<Rightarrow> id_field st = i | None \<Rightarrow> False)
          then (case selectedThreat s of Some prev \<Rightarrow> Some (prev\<lparr>status := ''Mitigated''\<rparr>) | None \<Rightarrow> None)
          else selectedThreat s)\<rparr>"

text \<open>\<^verbatim>\<open>data.message || "Unknown error"\<close>: an absent or empty message is falsy.\<close>

definition message_or_unknown :: "string option \<Rightarrow> string" where
  "message_or_unknown msg =
     (case msg of None \<Rightarrow> ''Unknown error'' | Some m \<Rightarrow> if m = [] then ''Unknown error'' else m)"

definition handleMitigate ::
  "string option \<Rightarrow> threat option \<Rightarrow> mitigate_outcome \<Rightarrow> app_state \<Rightarrow> app_state" where
  "handleMitigate i sel outcome s =
     (case outcome of
        NetworkError \<Rightarrow> updateLocalState i sel s
      | Reply ok msg \<Rightarrow>
          if ok then updateLocalState i sel s
          else if msg = Some ''Threat not found'' then updateLocalState i sel s
          else s\<lparr>alerts := alerts s @ [''Mitigation failed: '' @ message_or_unknown msg]\<rparr>)"

section \<open>Runs of the application\<close>

text \<open>
  The handlers run one at a time (JavaScript is single-threaded), so a run of the
  application is a sequence of resolved events applied in order to the state.
\<close>

datatype action =
    WsMessage threat
  | FetchResolved fetch_result
  | MitigateResolved "string option" "threat option" mitigate_outcome

fun step :: "app_state \<Rightarrow> action \<Rightarrow> app_state" where
  "step s (WsMessage data) = ws_onmessage data s"
| "step s (FetchResolved r) = fetchThreats r s"
| "step s (MitigateResolved i sel outcome) = handleMitigate i sel outcome s"

definition run :: "action list \<Rightarrow> app_state \<Rightarrow> app_state" where
  "run acts s = foldl step s acts"

text \<open>The two operations of the fusion engine, \<^verbatim>\<open>ingestOne\<close> and \<^verbatim>\<open>loadSnapshot\<close>.\<close>

definition ingestOne :: "threat \<Rightarrow> action" where
  "ingestOne e = WsMessage e"

definition loadSnapshot :: "threat list \<Rightarrow> action" where
  "loadSnapshot events = FetchResolved (FetchOk events)"

text \<open>A threat with the given id and status, for concrete runs.\<close>

definition sample_threat :: "string option \<Rightarrow> string \<Rightarrow> threat" where
  "sample_threat i st =
     \<lparr>id_field = i, timestamp = ''2024-01-01T00:00:00Z'', type_field = ''DDoS'',
      severity = ''High'', source = ''10.0.0.1'', target = ''10.0.0.2'', location = ''Unknown'',
      attribution = ''Unknown'', status = st, confidence = 1,
      source_coords = None, target_coords = None, analysis = None,
      mitigation_suggestions = None\<rparr>"

text \<open>
  A run keeps ids unique only when each event brings no id that is already there: a
  pushed event has an id that no entry has, and a snapshot has no id twice among its first
  50 records. \<open>fresh_run s acts\<close> says so for every event of the run \<open>acts\<close> from \<open>s\<close>.
\<close>

fun fresh_action :: "app_state \<Rightarrow> action \<Rightarrow> bool" where
  "fresh_action s (WsMessage data) = (id_field data \<notin> set (map id_field (threats s)))"
| "fresh_action s (FetchResolved (FetchOk data)) = distinct (map id_field (take 50 data))"
| "fresh_action s (FetchResolved FetchNotOk) = True"
| "fresh_action s (FetchResolved FetchFailed) = True"
| "fresh_action s (MitigateResolved i sel outcome) = True"

fun fresh_run :: "app_state \<Rightarrow> action list \<Rightarrow> bool" where
  "fresh_run s [] = True"
| "fresh_run s (a # acts) = (fresh_action s a \<and> fresh_run (step s a) acts)"

text \<open>The same with both coordinate pairs attached.\<close>

definition located_threat :: "string \<Rightarrow> string \<Rightarrow> threat" where
  "located_threat i st =
     (sample_threat (Some i) st)
       \<lparr>source_coords := Some \<lparr>lat = 10, lon = 20, city = ''X''\<rparr>,
        target_coords := Some \<lparr>lat = 30, lon = 40, city = ''Y''\<rparr>\<rparr>"

section \<open>The threat log of the dashboard (App.tsx)\<close>





section \<open>What the map and the globe draw (GeoMap.tsx, Globe3D.tsx)\<close>

text \<open>
  Both components filter the collection they are handed before anything is drawn.
  \<^verbatim>\<open>t.source_coords && t.target_coords\<close> is truthy exactly when both objects are present.
  The globe keeps the first 50 of them.
\<close>

definition GeoMap_visibleThreats :: "threat list \<Rightarrow> threat list" where
  "GeoMap_visibleThreats activeThreats =
     filter (\<lambda>t. status t = ''Detected'' \<and> source_coords t \<noteq> None \<and> target_coords t \<noteq> None)
       activeThreats"

definition Globe3D_visibleThreats :: "threat list \<Rightarrow> threat list" where
  "Globe3D_visibleThreats activeThreats =
     take 50
       (filter (\<lambda>t. status t = ''Detected'' \<and> source_coords t \<noteq> None \<and> target_coords t \<noteq> None)
          activeThreats)"

text \<open>
  The freshness test of the source markers of \<^verbatim>\<open>GeoMap\<close>:
  \<^verbatim>\<open>(currentTime - threatTime) < 10000\<close>. Times are milliseconds since the epoch.
  \<^verbatim>\<open>new Date(threat.timestamp).getTime()\<close> belongs to the JavaScript runtime and is the
  parameter \<open>getTime\<close>: \<open>None\<close> is \<^verbatim>\<open>NaN\<close> (a timestamp that is not a date), and every
  comparison with \<^verbatim>\<open>NaN\<close> is false. \<open>currentTime\<close> is the clock reading of the render.
\<close>

definition isNew :: "(string \<Rightarrow> int option) \<Rightarrow> int \<Rightarrow> threat \<Rightarrow> bool" where
  "isNew getTime currentTime t =
     (case getTime (timestamp t) of
        None \<Rightarrow> False
      | Some threatTime \<Rightarrow> currentTime - threatTime < 10000)"


section \<open>Projection onto the globe (Globe3D.tsx)\<close>

text \<open>
  \<^verbatim>\<open>THREE.Vector3\<close>, with JavaScript numbers idealised as reals: the theorems below are
  about the formulas the code evaluates, not about the rounding of IEEE doubles.
\<close>

datatype vec3 = Vector3 (vx: real) (vy: real) (vz: real)

definition latLonToVector3 :: "real \<Rightarrow> real \<Rightarrow> real \<Rightarrow> vec3" where
  "latLonToVector3 latitude longitude radius =
     (let phi = (90 - latitude) * (pi / 180);
          theta = (longitude + 180) * (pi / 180)
      in Vector3 (- radius * sin phi * cos theta) (radius * cos phi) (radius * sin phi * sin theta))"

text \<open>
  The conversion as the specification words it, for comparison with the code:
  \<^verbatim>\<open>phi = (90 - lat) * pi/180\<close>, \<^verbatim>\<open>theta = (lon + 180) * pi/180\<close>,
  \<^verbatim>\<open>x = -r sin(phi) cos(theta)\<close>, \<^verbatim>\<open>y = r cos(phi)\<close>, \<^verbatim>\<open>z = r sin(phi) sin(theta)\<close>.
\<close>

definition project3D_spec :: "real \<Rightarrow> real \<Rightarrow> real \<Rightarrow> vec3" where
  "project3D_spec latitude longitude r =
     Vector3 (- (r * sin ((90 - latitude) * pi / 180) * cos ((longitude + 180) * pi / 180)))
             (r * cos ((90 - latitude) * pi / 180))
             (r * sin ((90 - latitude) * pi / 180) * sin ((longitude + 180) * pi / 180))"

text \<open>The Euclidean norm of a vector (\<^verbatim>\<open>Vector3.length()\<close>), the norm of the specification.\<close>

definition length_v3 :: "vec3 \<Rightarrow> real" where
  "length_v3 v = sqrt (vx v * vx v + vy v * vy v + vz v * vz v)"

section \<open>Capacity of the working collection\<close>

lemma length_step_le:
  "length (threats s) \<le> 50 \<Longrightarrow> length (threats (step s a)) \<le> 50"
proof (cases a)
  case (WsMessage data)
  then show ?thesis by (simp add: ws_onmessage_def)
next
  case (FetchResolved r)
  assume "length (threats s) \<le> 50"
  with FetchResolved show ?thesis
    by (cases r) (simp_all add: fetchThreats_def)
next
  case (MitigateResolved i sel outcome)
  assume "length (threats s) \<le> 50"
  with MitigateResolved show ?thesis
    by (cases outcome) (simp_all add: handleMitigate_def updateLocalState_def)
qed

lemma length_foldl_step_le:
  "length (threats s) \<le> 50 \<Longrightarrow> length (threats (foldl step s acts)) \<le> 50"
  by (induction acts arbitrary: s) (simp_all add: length_step_le)

lemma take_append_take: "take n (xs @ take n ys) = take n (xs @ ys)"
  by (simp add: min_def)

lemma threats_foldl_WsMessage:
  "length (threats s) \<le> 50 \<Longrightarrow>
   threats (foldl step s (map WsMessage es)) = take 50 (rev es @ threats s)"
proof (induction es arbitrary: s)
  case Nil
  then show ?case by simp
next
  case (Cons e es)
  have "length (threats (ws_onmessage e s)) \<le> 50"
    by (simp add: ws_onmessage_def)
  then have "threats (foldl step s (map WsMessage (e # es))) = take 50 (rev es @ take 50 (e # threats s))"
    using Cons.IH [of "ws_onmessage e s"] by (simp add: ws_onmessage_def)
  also have "\<dots> = take 50 (rev es @ (e # threats s))"
    by (rule take_append_take)
  finally show ?case by simp
qed

text \<open>
  C3: after any sequence of resolved events that starts from the empty collection (pushed
  events, snapshot fetches, and mitigation requests as well), the working collection has
  at most 50 entries; and pushing the events \<open>es\<close> one after the other leaves exactly the
  50 most recently pushed ones, newest first.
\<close>

theorem capacity_invariant:
  "length (threats (run acts initial_state)) \<le> 50 \<and>
   threats (run (map ingestOne es) initial_state) = take 50 (rev es)"
proof
  show "length (threats (run acts initial_state)) \<le> 50"
    unfolding run_def by (rule length_foldl_step_le) (simp add: initial_state_def)
  have "ingestOne = WsMessage"
    by (rule ext) (simp add: ingestOne_def)
  then show "threats (run (map ingestOne es) initial_state) = take 50 (rev es)"
    unfolding run_def by (simp add: threats_foldl_WsMessage initial_state_def)
qed

theorem capacity_invariant_witness:
  "length (threats (run (map ingestOne (map (\<lambda>n. sample_threat (Some (replicate n CHR ''a'')) ''Detected'') [0..<60]))
      initial_state)) = 50"
  using capacity_invariant
    [of "map ingestOne (map (\<lambda>n. sample_threat (Some (replicate n CHR ''a'')) ''Detected'') [0..<60])"
        "map (\<lambda>n. sample_threat (Some (replicate n CHR ''a'')) ''Detected'') [0..<60]"]
  by simp

section \<open>Outcomes of a mitigation request\<close>

lemma threats_updateLocalState:
  "threats (updateLocalState i sel s) =
     map (\<lambda>t. if id_field t = i then t\<lparr>status := ''Mitigated''\<rparr> else t) (threats s)"
  by (simp add: updateLocalState_def)

lemma alerts_updateLocalState: "alerts (updateLocalState i sel s) = alerts s"
  by (simp add: updateLocalState_def)

lemma handleMitigate_success:
  "outcome = Reply True msg \<or> outcome = Reply False (Some ''Threat not found'') \<or> outcome = NetworkError
   \<Longrightarrow> handleMitigate i sel outcome s = updateLocalState i sel s"
  by (auto simp add: handleMitigate_def)

lemma threats_handleMitigate_cases:
  "threats (handleMitigate j sel outcome s) = threats s
   \<or> threats (handleMitigate j sel outcome s) = threats (updateLocalState j sel s)"
  by (cases outcome) (simp_all add: handleMitigate_def)

lemma ids_updateLocalState:
  "map id_field (threats (updateLocalState j sel s)) = map id_field (threats s)"
proof -
  have "id_field (if id_field u = j then u\<lparr>status := ''Mitigated''\<rparr> else u) = id_field u" for u :: threat
    by simp
  then show ?thesis
    by (simp only: threats_updateLocalState map_map comp_def)
qed

lemma ids_handleMitigate:
  "map id_field (threats (handleMitigate j sel outcome s)) = map id_field (threats s)"
  using threats_handleMitigate_cases [of j sel outcome s]
  by (elim disjE) (simp_all only: ids_updateLocalState)

text \<open>
  C4: when the mitigation request ends with \<^verbatim>\<open>ok\<close>, with the message
  \<^verbatim>\<open>"Threat not found"\<close> or with a transport failure, every entry of the working
  collection with that id has status \<^verbatim>\<open>Mitigated\<close> afterwards, no entry is added or
  removed, and nothing is shown to the operator.
\<close>

theorem mitigate_marks_mitigated:
  assumes "outcome = Reply True msg \<or> outcome = Reply False (Some ''Threat not found'')
           \<or> outcome = NetworkError"
  shows "(\<forall>t \<in> set (threats (handleMitigate i sel outcome s)). id_field t = i \<longrightarrow> status t = ''Mitigated'')
       \<and> map id_field (threats (handleMitigate i sel outcome s)) = map id_field (threats s)
       \<and> alerts (handleMitigate i sel outcome s) = alerts s"
proof -
  let ?f = "\<lambda>t. if id_field t = i then t\<lparr>status := ''Mitigated''\<rparr> else t"
  have eq: "handleMitigate i sel outcome s = updateLocalState i sel s"
    using assms by (rule handleMitigate_success)
  have f_status: "id_field (?f u) = i \<longrightarrow> status (?f u) = ''Mitigated''" for u
    by simp
  have f_id: "id_field (?f u) = id_field u" for u
    by simp
  have "\<forall>t \<in> set (map ?f (threats s)). id_field t = i \<longrightarrow> status t = ''Mitigated''"
    using f_status by (simp only: set_map ball_simps) blast
  moreover have "map id_field (map ?f (threats s)) = map id_field (threats s)"
    by (simp only: map_map comp_def f_id)
  ultimately show ?thesis
    by (simp only: eq alerts_updateLocalState threats_updateLocalState simp_thms)
qed

theorem mitigate_marks_mitigated_witness:
  "map status (threats (handleMitigate (Some ''Z'') None (Reply False (Some ''Threat not found''))
       (initial_state\<lparr>threats := [sample_threat (Some ''Z'') ''Detected'', sample_threat (Some ''B'') ''Detected'']\<rparr>)))
     = [''Mitigated'', ''Detected'']
   \<and> alerts (handleMitigate (Some ''Z'') None (Reply False (Some ''Threat not found''))
       (initial_state\<lparr>threats := [sample_threat (Some ''Z'') ''Detected'', sample_threat (Some ''B'') ''Detected'']\<rparr>)) = []"
  using mitigate_marks_mitigated
    [of "Reply False (Some ''Threat not found'')" None "Some ''Z''" None
        "initial_state\<lparr>threats := [sample_threat (Some ''Z'') ''Detected'', sample_threat (Some ''B'') ''Detected'']\<rparr>"]
  by (simp add: handleMitigate_def updateLocalState_def initial_state_def sample_threat_def)

text \<open>
  C5: when the mitigation request ends with a failure whose message is not
  \<^verbatim>\<open>"Threat not found"\<close>, the working collection and the selection are unchanged (an
  entry that was \<^verbatim>\<open>Detected\<close> still is), and one alert is shown: \<^verbatim>\<open>"Mitigation failed: "\<close>
  followed by the message as it came (an empty message is shown as \<^verbatim>\<open>"Unknown error"\<close>).
\<close>

theorem mitigate_other_error:
  assumes "m \<noteq> ''Threat not found''"
  shows "threats (handleMitigate i sel (Reply False (Some m)) s) = threats s
       \<and> selectedThreat (handleMitigate i sel (Reply False (Some m)) s) = selectedThreat s
       \<and> alerts (handleMitigate i sel (Reply False (Some m)) s)
           = alerts s @ [''Mitigation failed: '' @ (if m = [] then ''Unknown error'' else m)]
       \<and> suffix m (last (alerts (handleMitigate i sel (Reply False (Some m)) s)))"
  using assms by (simp add: handleMitigate_def message_or_unknown_def suffix_def)

theorem mitigate_other_error_witness:
  "''Rate limited'' \<noteq> ''Threat not found''
   \<and> map status (threats (handleMitigate (Some ''B'') None (Reply False (Some ''Rate limited''))
       (initial_state\<lparr>threats := [sample_threat (Some ''B'') ''Detected'']\<rparr>))) = [''Detected'']
   \<and> alerts (handleMitigate (Some ''B'') None (Reply False (Some ''Rate limited''))
       (initial_state\<lparr>threats := [sample_threat (Some ''B'') ''Detected'']\<rparr>))
       = [''Mitigation failed: Rate limited'']"
  using mitigate_other_error
    [of "''Rate limited''" "Some ''B''" None
        "initial_state\<lparr>threats := [sample_threat (Some ''B'') ''Detected'']\<rparr>"]
  by (simp add: initial_state_def sample_threat_def)

section \<open>Status of an entry across events\<close>

lemma status_kept_by_marking:
  assumes "\<forall>t \<in> set ts. id_field t = i \<longrightarrow> status t = v"
  shows "\<forall>t \<in> set (map (\<lambda>t. if id_field t = j then t\<lparr>status := v\<rparr> else t) ts).
           id_field t = i \<longrightarrow> status t = v"
  using assms by auto

lemma threats_step_ingestOne:
  "threats (step s (ingestOne e)) = take 50 (e # threats s)"
  by (simp add: ingestOne_def ws_onmessage_def)

text \<open>
  C1 as stated fails. \<^verbatim>\<open>fetchThreats\<close> does not merge: it overwrites the collection with
  the first 50 records of the snapshot. A snapshot with \<open>A\<close> as \<^verbatim>\<open>Detected\<close>, a confirmed
  mitigation of \<open>A\<close>, and the same snapshot again: \<open>A\<close> is \<^verbatim>\<open>Detected\<close> once more.
\<close>

theorem snapshot_reverts_mitigated:
  "map status (threats (run
      [loadSnapshot [sample_threat (Some ''A'') ''Detected''],
       MitigateResolved (Some ''A'') None (Reply True None)] initial_state)) = [''Mitigated'']
   \<and> map status (threats (run
      [loadSnapshot [sample_threat (Some ''A'') ''Detected''],
       MitigateResolved (Some ''A'') None (Reply True None),
       loadSnapshot [sample_threat (Some ''A'') ''Detected'']] initial_state)) = [''Detected'']"
  by (simp add: run_def loadSnapshot_def fetchThreats_def handleMitigate_def updateLocalState_def
      initial_state_def sample_threat_def)

text \<open>
  C1, amended: once every entry with id \<open>i\<close> is \<^verbatim>\<open>Mitigated\<close>, it stays so after a
  mitigation request for any id with any outcome, and after the push of an event with
  another id; a snapshot load replaces the collection with the first 50 records of the
  snapshot, so the status of \<open>i\<close> is then the one the snapshot lists.
\<close>

theorem mitigated_kept_except_by_snapshot:
  assumes "\<forall>t \<in> set (threats s). id_field t = i \<longrightarrow> status t = ''Mitigated''"
  shows "(\<forall>t \<in> set (threats (handleMitigate j sel outcome s)). id_field t = i \<longrightarrow> status t = ''Mitigated'')
       \<and> (id_field e \<noteq> i \<longrightarrow>
            (\<forall>t \<in> set (threats (step s (ingestOne e))). id_field t = i \<longrightarrow> status t = ''Mitigated''))
       \<and> threats (step s (loadSnapshot events)) = take 50 events"
proof (intro conjI impI)
  have "\<forall>t \<in> set (threats (updateLocalState j sel s)). id_field t = i \<longrightarrow> status t = ''Mitigated''"
    unfolding threats_updateLocalState using assms by (rule status_kept_by_marking)
  with assms threats_handleMitigate_cases [of j sel outcome s]
  show "\<forall>t \<in> set (threats (handleMitigate j sel outcome s)). id_field t = i \<longrightarrow> status t = ''Mitigated''"
    by (elim disjE) (simp_all only:)
next
  assume ne: "id_field e \<noteq> i"
  show "\<forall>t \<in> set (threats (step s (ingestOne e))). id_field t = i \<longrightarrow> status t = ''Mitigated''"
  proof (intro ballI impI)
    fix t
    assume mem: "t \<in> set (threats (step s (ingestOne e)))" and eq: "id_field t = i"
    from mem have "t \<in> set (e # threats s)"
      unfolding threats_step_ingestOne by (rule in_set_takeD)
    with ne eq have "t \<in> set (threats s)" by auto
    with assms eq show "status t = ''Mitigated''" by blast
  qed
next
  show "threats (step s (loadSnapshot events)) = take 50 events"
    by (simp add: loadSnapshot_def fetchThreats_def)
qed

theorem mitigated_kept_except_by_snapshot_witness:
  "map status (threats (handleMitigate (Some ''B'') None (Reply False (Some ''Rate limited''))
       (initial_state\<lparr>threats := [sample_threat (Some ''A'') ''Mitigated'']\<rparr>))) = [''Mitigated'']
   \<and> map status (threats (step (initial_state\<lparr>threats := [sample_threat (Some ''A'') ''Mitigated'']\<rparr>)
        (ingestOne (sample_threat (Some ''C'') ''Detected'')))) = [''Detected'', ''Mitigated'']
   \<and> threats (step (initial_state\<lparr>threats := [sample_threat (Some ''A'') ''Mitigated'']\<rparr>)
        (loadSnapshot [sample_threat (Some ''A'') ''Detected''])) = [sample_threat (Some ''A'') ''Detected'']"
proof -
  let ?s = "initial_state\<lparr>threats := [sample_threat (Some ''A'') ''Mitigated'']\<rparr>"
  have "\<forall>t \<in> set (threats ?s). id_field t = Some ''A'' \<longrightarrow> status t = ''Mitigated''"
    by (simp add: sample_threat_def)
  from mitigated_kept_except_by_snapshot [OF this, of "Some ''B''" None "Reply False (Some ''Rate limited'')"
      "sample_threat (Some ''C'') ''Detected''" "[sample_threat (Some ''A'') ''Detected'']"]
  show ?thesis
    by (simp add: handleMitigate_def threats_step_ingestOne sample_threat_def)
qed

section \<open>Uniqueness of ids\<close>

lemma take_50_Cons: "take 50 (x # xs) = x # take 49 xs"
  by (simp add: take_Cons')

lemma distinct_ids_step:
  assumes "distinct (map id_field (threats s))" and "fresh_action s a"
  shows "distinct (map id_field (threats (step s a)))"
proof (cases a)
  case (WsMessage data)
  have "distinct (map id_field (data # threats s))"
    using assms WsMessage by simp
  then have "distinct (take 50 (map id_field (data # threats s)))"
    by (rule distinct_take)
  then show ?thesis
    using WsMessage by (simp add: ws_onmessage_def take_map)
next
  case (FetchResolved r)
  with assms show ?thesis
    by (cases r) (simp_all add: fetchThreats_def)
next
  case (MitigateResolved i sel outcome)
  with assms show ?thesis
    by (simp only: step.simps ids_handleMitigate)
qed

lemma distinct_ids_foldl_step:
  "distinct (map id_field (threats s)) \<Longrightarrow> fresh_run s acts \<Longrightarrow>
   distinct (map id_field (threats (foldl step s acts)))"
proof (induction acts arbitrary: s)
  case Nil
  then show ?case by simp
next
  case (Cons a acts)
  from Cons.prems have "distinct (map id_field (threats (step s a)))"
    by (simp add: distinct_ids_step)
  moreover from Cons.prems have "fresh_run (step s a) acts"
    by simp
  ultimately show ?case
    using Cons.IH [of "step s a"] by simp
qed

text \<open>
  C2 as stated fails. \<^verbatim>\<open>ws.onmessage\<close> never looks ids up: it puts the event in front.
  After a snapshot with \<open>A\<close>, \<open>B\<close>, \<open>C\<close>, a push of \<open>A\<close> with a newer timestamp leaves four
  entries, two of them with id \<open>A\<close>.
\<close>

theorem push_of_present_id_duplicates:
  "map id_field (threats (run
      [loadSnapshot [sample_threat (Some ''A'') ''Detected'', sample_threat (Some ''B'') ''Detected'',
         sample_threat (Some ''C'') ''Detected''],
       ingestOne ((sample_threat (Some ''A'') ''Detected'')\<lparr>timestamp := ''2024-01-01T00:00:05Z''\<rparr>)]
      initial_state)) = [Some ''A'', Some ''A'', Some ''B'', Some ''C'']"
  by (simp add: run_def loadSnapshot_def ingestOne_def fetchThreats_def ws_onmessage_def
      initial_state_def sample_threat_def)

text \<open>
  C2, amended: after any run in which every pushed event has an id that no entry has and
  every loaded snapshot has no id twice among its first 50 records, every id occurs at
  most once in the working collection. There is no update in place: a pushed event is
  always inserted in front, so when its id is among the first 49 entries the collection
  has that id twice afterwards.
\<close>

theorem ids_unique_when_fresh:
  "(distinct (map id_field (threats s)) \<and> fresh_run s acts
      \<longrightarrow> distinct (map id_field (threats (run acts s))))
   \<and> (id_field e \<in> set (map id_field (take 49 (threats s)))
      \<longrightarrow> threats (step s (ingestOne e)) = e # take 49 (threats s)
          \<and> \<not> distinct (map id_field (threats (step s (ingestOne e)))))"
proof (intro conjI impI)
  assume "distinct (map id_field (threats s)) \<and> fresh_run s acts"
  then show "distinct (map id_field (threats (run acts s)))"
    unfolding run_def by (simp add: distinct_ids_foldl_step)
next
  show "threats (step s (ingestOne e)) = e # take 49 (threats s)"
    by (simp only: threats_step_ingestOne take_50_Cons)
next
  assume "id_field e \<in> set (map id_field (take 49 (threats s)))"
  then show "\<not> distinct (map id_field (threats (step s (ingestOne e))))"
    by (simp only: threats_step_ingestOne take_50_Cons list.map distinct.simps simp_thms not_False_eq_True)
qed

theorem ids_unique_when_fresh_witness:
  "map id_field (threats (run
      [loadSnapshot [sample_threat (Some ''A'') ''Detected'', sample_threat (Some ''B'') ''Detected''],
       ingestOne (sample_threat (Some ''C'') ''Detected'')] initial_state))
     = [Some ''C'', Some ''A'', Some ''B'']
   \<and> distinct (map id_field (threats (run
      [loadSnapshot [sample_threat (Some ''A'') ''Detected'', sample_threat (Some ''B'') ''Detected''],
       ingestOne (sample_threat (Some ''C'') ''Detected'')] initial_state)))
   \<and> \<not> distinct (map id_field (threats (step
        (initial_state\<lparr>threats := [sample_threat (Some ''A'') ''Detected'']\<rparr>)
        (ingestOne (sample_threat (Some ''A'') ''Mitigated'')))))"
proof -
  let ?acts = "[loadSnapshot [sample_threat (Some ''A'') ''Detected'', sample_threat (Some ''B'') ''Detected''],
       ingestOne (sample_threat (Some ''C'') ''Detected'')]"
  have "distinct (map id_field (threats initial_state)) \<and> fresh_run initial_state ?acts"
    by (simp add: initial_state_def loadSnapshot_def ingestOne_def fetchThreats_def sample_threat_def)
  moreover have "id_field (sample_threat (Some ''A'') ''Mitigated'')
      \<in> set (map id_field (take 49 (threats (initial_state\<lparr>threats := [sample_threat (Some ''A'') ''Detected'']\<rparr>))))"
    by (simp add: sample_threat_def)
  ultimately show ?thesis
    using ids_unique_when_fresh [of initial_state ?acts "sample_threat (Some ''C'') ''Detected''"]
      ids_unique_when_fresh [of "initial_state\<lparr>threats := [sample_threat (Some ''A'') ''Detected'']\<rparr>" "[]"
        "sample_threat (Some ''A'') ''Mitigated''"]
    by (simp add: run_def loadSnapshot_def ingestOne_def fetchThreats_def ws_onmessage_def
        initial_state_def sample_threat_def)
qed

section \<open>Records without an id\<close>






section \<open>Freshness\<close>

text \<open>
  C9: the freshness test is true exactly when the timestamp is a date and the clock
  reading minus that date is below 10000 ms. It depends on the event and the clock
  reading only: it holds at \<open>now = t\<close>, and it is false at every \<open>now \<ge> t + 10000\<close>.
\<close>

theorem isNew_window:
  "(isNew getTime now e \<longleftrightarrow> (\<exists>t. getTime (timestamp e) = Some t \<and> now - t < 10000))
   \<and> (\<forall>t. getTime (timestamp e) = Some t \<longrightarrow>
         isNew getTime t e \<and> (t + 10000 \<le> now \<longrightarrow> \<not> isNew getTime now e))"
  by (auto simp add: isNew_def split: option.splits)

theorem isNew_window_witness:
  "isNew (\<lambda>s. if s = ''2024-01-01T00:00:00Z'' then Some 1704067200000 else None) 1704067209999
     (sample_threat (Some ''A'') ''Detected'')
   \<and> \<not> isNew (\<lambda>s. if s = ''2024-01-01T00:00:00Z'' then Some 1704067200000 else None) 1704067210000
     (sample_threat (Some ''A'') ''Detected'')"
  using isNew_window
    [of "\<lambda>s. if s = ''2024-01-01T00:00:00Z'' then Some 1704067200000 else None" 1704067209999
        "sample_threat (Some ''A'') ''Detected''"]
    isNew_window
    [of "\<lambda>s. if s = ''2024-01-01T00:00:00Z'' then Some 1704067200000 else None" 1704067210000
        "sample_threat (Some ''A'') ''Detected''"]
  by (simp add: sample_threat_def)

section \<open>Threats drawn on the map and the globe\<close>

lemma in_filter_holds: "t \<in> set (filter P xs) \<Longrightarrow> P t"
  by simp

lemma in_take_filter_holds: "t \<in> set (take n (filter P xs)) \<Longrightarrow> P t"
  by (rule in_filter_holds) (rule in_set_takeD)

lemma Detected_not_Mitigated: "st = ''Detected'' \<Longrightarrow> st \<noteq> ''Mitigated''"
  by simp

text \<open>
  C10: every threat that the map or the globe draws has status \<^verbatim>\<open>Detected\<close> and both
  coordinate pairs; a threat with status \<^verbatim>\<open>Mitigated\<close> is drawn by neither, whatever
  coordinates it has.
\<close>

theorem visible_only_detected_with_coords:
  "(\<forall>t \<in> set (GeoMap_visibleThreats ts) \<union> set (Globe3D_visibleThreats ts).
       status t = ''Detected'' \<and> source_coords t \<noteq> None \<and> target_coords t \<noteq> None)
   \<and> (\<forall>t. status t = ''Mitigated'' \<longrightarrow>
         t \<notin> set (GeoMap_visibleThreats ts) \<and> t \<notin> set (Globe3D_visibleThreats ts))"
proof -
  let ?P = "\<lambda>t. status t = ''Detected'' \<and> source_coords t \<noteq> None \<and> target_coords t \<noteq> None"
  have geo: "?P t" if "t \<in> set (GeoMap_visibleThreats ts)" for t
    using that [unfolded GeoMap_visibleThreats_def] by (rule in_filter_holds)
  have globe: "?P t" if "t \<in> set (Globe3D_visibleThreats ts)" for t
    using that [unfolded Globe3D_visibleThreats_def] by (rule in_take_filter_holds)
  have first: "\<forall>t \<in> set (GeoMap_visibleThreats ts) \<union> set (Globe3D_visibleThreats ts). ?P t"
  proof
    fix t
    assume "t \<in> set (GeoMap_visibleThreats ts) \<union> set (Globe3D_visibleThreats ts)"
    then show "?P t"
    proof
      assume "t \<in> set (GeoMap_visibleThreats ts)"
      then show ?thesis by (rule geo)
    next
      assume "t \<in> set (Globe3D_visibleThreats ts)"
      then show ?thesis by (rule globe)
    qed
  qed
  have second: "t \<notin> set (GeoMap_visibleThreats ts) \<and> t \<notin> set (Globe3D_visibleThreats ts)"
    if m: "status t = ''Mitigated''" for t
  proof
    show "t \<notin> set (GeoMap_visibleThreats ts)"
    proof
      assume "t \<in> set (GeoMap_visibleThreats ts)"
      then have "status t = ''Detected''" by (rule conjunct1 [OF geo])
      then have "status t \<noteq> ''Mitigated''" by (rule Detected_not_Mitigated)
      then show False using m by (rule notE)
    qed
    show "t \<notin> set (Globe3D_visibleThreats ts)"
    proof
      assume "t \<in> set (Globe3D_visibleThreats ts)"
      then have "status t = ''Detected''" by (rule conjunct1 [OF globe])
      then have "status t \<noteq> ''Mitigated''" by (rule Detected_not_Mitigated)
      then show False using m by (rule notE)
    qed
  qed
  have "\<forall>t. status t = ''Mitigated'' \<longrightarrow>
      t \<notin> set (GeoMap_visibleThreats ts) \<and> t \<notin> set (Globe3D_visibleThreats ts)"
  proof (intro allI impI)
    fix t :: threat
    assume "status t = ''Mitigated''"
    then show "t \<notin> set (GeoMap_visibleThreats ts) \<and> t \<notin> set (Globe3D_visibleThreats ts)"
      by (rule second)
  qed
  with first show ?thesis by (rule conjI)
qed

theorem visible_only_detected_with_coords_witness:
  "status (located_threat ''B'' ''Mitigated'') = ''Mitigated''
   \<and> located_threat ''B'' ''Mitigated'' \<notin> set (GeoMap_visibleThreats
      [located_threat ''A'' ''Detected'', located_threat ''B'' ''Mitigated'',
       sample_threat (Some ''C'') ''Detected''])
   \<and> located_threat ''B'' ''Mitigated'' \<notin> set (Globe3D_visibleThreats
      [located_threat ''A'' ''Detected'', located_threat ''B'' ''Mitigated'',
       sample_threat (Some ''C'') ''Detected''])"
proof -
  have "status (located_threat ''B'' ''Mitigated'') = ''Mitigated''"
    by (simp add: located_threat_def sample_threat_def)
  with visible_only_detected_with_coords
    [of "[located_threat ''A'' ''Detected'', located_threat ''B'' ''Mitigated'',
       sample_threat (Some ''C'') ''Detected'']"]
  show ?thesis by blast
qed

section \<open>Projection onto the globe: position and norm\<close>

lemma latLonToVector3_eq_spec:
  "latLonToVector3 la lo r = project3D_spec la lo r"
  by (simp add: latLonToVector3_def project3D_spec_def Let_def)

lemma latLonToVector3_north_pole: "latLonToVector3 90 0 2 = Vector3 0 2 0"
  by (simp add: latLonToVector3_def Let_def)

lemma sum_of_squares_factored:
  fixes r a b c d :: real
  shows "(- r * a * d) * (- r * a * d) + (r * b) * (r * b) + (r * a * c) * (r * a * c)
         = r * r * (a * a * (d * d + c * c) + b * b)"
  by (simp add: algebra_simps)

lemma sphere_sum_of_squares:
  fixes r p q :: real
  shows "(- r * sin p * cos q) * (- r * sin p * cos q) + (r * cos p) * (r * cos p)
         + (r * sin p * sin q) * (r * sin p * sin q) = r * r"
proof -
  have "(- r * sin p * cos q) * (- r * sin p * cos q) + (r * cos p) * (r * cos p)
         + (r * sin p * sin q) * (r * sin p * sin q)
        = r * r * (sin p * sin p * (cos q * cos q + sin q * sin q) + cos p * cos p)"
    by (rule sum_of_squares_factored)
  also have "\<dots> = r * r * (sin p * sin p + cos p * cos p)"
    by (simp only: sin_cos_squared_add3 mult_1_right)
  also have "\<dots> = r * r * (cos p * cos p + sin p * sin p)"
    by (simp only: add.commute)
  also have "\<dots> = r * r"
    by (simp only: sin_cos_squared_add3 mult_1_right)
  finally show ?thesis .
qed

lemma length_latLonToVector3: "length_v3 (latLonToVector3 la lo r) = \<bar>r\<bar>"
proof -
  have "length_v3 (latLonToVector3 la lo r) = sqrt (r * r)"
    unfolding latLonToVector3_def Let_def length_v3_def vec3.sel
    by (simp only: sphere_sum_of_squares)
  then show ?thesis
    by simp
qed

text \<open>
  C7: the conversion of the code is the spherical-to-Cartesian conversion of the
  specification for every latitude, longitude and radius; the north pole at radius 2 is
  \<open>(0, 2, 0)\<close>; and the result has norm \<open>\<bar>r\<bar>\<close>, which is \<open>r\<close> for a radius \<open>r \<ge> 0\<close>, at every
  latitude and longitude. All of it over the reals: what the doubles of the code add
  is rounding.
\<close>

theorem project3D_formula_and_norm:
  "latLonToVector3 la lo r = project3D_spec la lo r
   \<and> latLonToVector3 90 0 2 = Vector3 0 2 0
   \<and> length_v3 (latLonToVector3 la lo r) = \<bar>r\<bar>
   \<and> (0 \<le> r \<longrightarrow> length_v3 (latLonToVector3 la lo r) = r)"
  by (simp add: latLonToVector3_eq_spec [symmetric] latLonToVector3_north_pole
      length_latLonToVector3)

theorem project3D_formula_and_norm_witness:
  "latLonToVector3 0 (-90) 2 = Vector3 0 0 2 \<and> length_v3 (latLonToVector3 0 (-90) 2) = 2"
  using project3D_formula_and_norm [of 0 "-90" 2]
  by (simp add: project3D_spec_def length_v3_def)

end
